theory Spec2Isabelle
  imports Main "HOL-Library.Word"
begin

section \<open>Plurality rules of OpenXcom (src/Engine/LanguagePlurality.cpp)\<close>

text \<open>
  The file defines seven classes derived from \<open>LanguagePlurality\<close>, each with one virtual
  method \<open>getSuffix(unsigned n)\<close> returning a C string, and the static factory
  \<open>LanguagePlurality::create(language)\<close>, which keeps the static table
  \<open>s_factoryFunctions\<close>.

  The parameter \<open>n\<close> has the C++ type \<open>unsigned\<close>: a 32-bit word here. The operators
  \<open>%\<close>, \<open>==\<close>, \<open>>=\<close> and \<open><=\<close> of the source act on unsigned values (the \<open>int\<close>
  literals are converted to \<open>unsigned\<close>), which is what \<open>mod\<close>, \<open>=\<close> and \<open>\<le>\<close>
  are on words.
\<close>

type_synonym unsigned = "32 word"

subsection \<open>The suffixes returned by \<open>getSuffix\<close>\<close>

text \<open>
  The source returns the string literals \<open>"_one"\<close>, \<open>"_few"\<close>, \<open>"_many"\<close> and
  \<open>"_other"\<close>; its doc comments (\<open>@langsuffixes one = 1; few = 2-4; other = ...\<close>) name the
  categories behind them. \<open>PluralCategory\<close> is that set of names and \<open>suffix\<close> the
  string of each, so that a statement can speak of the category a rule returns.
\<close>

datatype PluralCategory = One | Few | Many | Other

fun suffix :: "PluralCategory \<Rightarrow> string" where
  "suffix One = ''_one''"
| "suffix Few = ''_few''"
| "suffix Many = ''_many''"
| "suffix Other = ''_other''"

subsection \<open>The seven \<open>getSuffix\<close> methods\<close>

text \<open>\<open>OneSingular::getSuffix\<close>, lines 36 to 43.\<close>

definition OneSingular_getSuffix :: "unsigned \<Rightarrow> string" where
  "OneSingular_getSuffix n = (if n = 1 then ''_one'' else ''_other'')"

text \<open>\<open>ZeroOneSingular::getSuffix\<close>, lines 57 to 64.\<close>

definition ZeroOneSingular_getSuffix :: "unsigned \<Rightarrow> string" where
  "ZeroOneSingular_getSuffix n = (if n = 0 \<or> n = 1 then ''_one'' else ''_other'')"

text \<open>\<open>NoSingular::getSuffix\<close>, lines 78 to 81.\<close>

definition NoSingular_getSuffix :: "unsigned \<Rightarrow> string" where
  "NoSingular_getSuffix n = ''_other''"

text \<open>\<open>CyrillicPlurality::getSuffix\<close>, lines 94 to 112.\<close>

definition CyrillicPlurality_getSuffix :: "unsigned \<Rightarrow> string" where
  "CyrillicPlurality_getSuffix n =
     (if n mod 10 = 1 \<and> n mod 100 \<noteq> 11 then ''_one''
      else if (n mod 10 \<ge> 2 \<and> n mod 10 \<le> 4) \<and>
              \<not> (n mod 100 \<ge> 12 \<and> n mod 100 \<le> 14) then ''_few''
      else if n mod 10 = 0 \<or>
              (n mod 10 \<ge> 5 \<and> n mod 10 \<le> 9) \<or>
              (n mod 100 \<ge> 11 \<and> n mod 100 \<le> 14) then ''_many''
      else ''_other'')"

text \<open>\<open>CzechPlurality::getSuffix\<close>, lines 125 to 136.\<close>

definition CzechPlurality_getSuffix :: "unsigned \<Rightarrow> string" where
  "CzechPlurality_getSuffix n =
     (if n = 1 then ''_one''
      else if n \<ge> 2 \<and> n \<le> 4 then ''_few''
      else ''_other'')"

text \<open>\<open>PolishPlurality::getSuffix\<close>, lines 149 to 167.\<close>

definition PolishPlurality_getSuffix :: "unsigned \<Rightarrow> string" where
  "PolishPlurality_getSuffix n =
     (if n = 1 then ''_one''
      else if (n mod 10 \<ge> 2 \<and> n mod 10 \<le> 4) \<and>
              \<not> (n mod 100 \<ge> 12 \<and> n mod 100 \<le> 14) then ''_few''
      else if (n mod 10 \<ge> 0 \<and> n mod 10 \<le> 1) \<or>
              (n mod 10 \<ge> 5 \<and> n mod 10 \<le> 9) \<or>
              (n mod 100 \<ge> 12 \<and> n mod 100 \<le> 14) then ''_many''
      else ''_other'')"

text \<open>\<open>RomanianPlurality::getSuffix\<close>, lines 180 to 192.\<close>

definition RomanianPlurality_getSuffix :: "unsigned \<Rightarrow> string" where
  "RomanianPlurality_getSuffix n =
     (if n = 1 then ''_one''
      else if n = 0 \<or> (n mod 100 \<ge> 1 \<and> n mod 100 \<le> 19) then ''_few''
      else ''_other'')"

subsection \<open>Instances and virtual dispatch\<close>

text \<open>
  None of the seven classes has a data member, so an instance is determined by its
  dynamic class. \<open>getSuffix\<close> is the virtual call through a \<open>LanguagePlurality *\<close>.
\<close>

datatype LanguagePlurality =
  OneSingular | ZeroOneSingular | NoSingular | CyrillicPlurality
  | CzechPlurality | PolishPlurality | RomanianPlurality

fun getSuffix :: "LanguagePlurality \<Rightarrow> unsigned \<Rightarrow> string" where
  "getSuffix OneSingular n = OneSingular_getSuffix n"
| "getSuffix ZeroOneSingular n = ZeroOneSingular_getSuffix n"
| "getSuffix NoSingular n = NoSingular_getSuffix n"
| "getSuffix CyrillicPlurality n = CyrillicPlurality_getSuffix n"
| "getSuffix CzechPlurality n = CzechPlurality_getSuffix n"
| "getSuffix PolishPlurality n = PolishPlurality_getSuffix n"
| "getSuffix RomanianPlurality n = RomanianPlurality_getSuffix n"

text \<open>
  \<open>PFCreate\<close> is the type of the static \<open>create()\<close> member of each class (a function
  pointer in the source); \<open>call\<close> is \<open>(*creator)()\<close>, which returns a new instance of
  the class. Allocation failure of \<open>new\<close> is outside the model.
\<close>

datatype PFCreate =
  OneSingular_create | ZeroOneSingular_create | NoSingular_create
  | CyrillicPlurality_create | CzechPlurality_create | PolishPlurality_create
  | RomanianPlurality_create

fun call :: "PFCreate \<Rightarrow> LanguagePlurality" where
  "call OneSingular_create = OneSingular"
| "call ZeroOneSingular_create = ZeroOneSingular"
| "call NoSingular_create = NoSingular"
| "call CyrillicPlurality_create = CyrillicPlurality"
| "call CzechPlurality_create = CzechPlurality"
| "call PolishPlurality_create = PolishPlurality"
| "call RomanianPlurality_create = RomanianPlurality"

subsection \<open>The factory table and \<open>LanguagePlurality::create\<close>\<close>

text \<open>
  \<open>s_factoryFunctions\<close> is a \<open>std::map<std::string, PFCreate>\<close>: here an association
  list with at most one pair for a key. \<open>create\<close> uses three of its operations:
  \<open>empty()\<close>, \<open>insert(pair)\<close>, which adds the pair unless the key is already present and
  never overwrites, and \<open>find(key)\<close>, which compares keys with \<open>std::string\<close>'s
  ordering, so byte for byte. The order in which a \<open>std::map\<close> iterates is not used by
  \<open>create\<close>; the list keeps the order of insertion.
\<close>

type_synonym factory_map = "(string \<times> PFCreate) list"

definition map_is_empty :: "factory_map \<Rightarrow> bool" where
  "map_is_empty m = (m = [])"

definition map_insert :: "string \<times> PFCreate \<Rightarrow> factory_map \<Rightarrow> factory_map" where
  "map_insert p m = (if map_of m (fst p) = None then m @ [p] else m)"

definition map_find :: "factory_map \<Rightarrow> string \<Rightarrow> PFCreate option" where
  "map_find m k = map_of m k"

text \<open>The static object is default-constructed: the empty map (line 199).\<close>

definition s_factoryFunctions_initial :: factory_map where
  "s_factoryFunctions_initial = []"

text \<open>The eight insertions of lines 215 to 222, in the order of the source.\<close>

definition populate :: "factory_map \<Rightarrow> factory_map" where
  "populate m =
     map_insert (''uk'', CyrillicPlurality_create)
    (map_insert (''ru'', CyrillicPlurality_create)
    (map_insert (''ro'', RomanianPlurality_create)
    (map_insert (''pl-PL'', PolishPlurality_create)
    (map_insert (''cs-CZ'', CzechPlurality_create)
    (map_insert (''tr-TR'', NoSingular_create)
    (map_insert (''hu-HU'', NoSingular_create)
    (map_insert (''fr'', ZeroOneSingular_create) m)))))))"

text \<open>
  \<open>LanguagePlurality::create\<close>, lines 210 to 231. The static table is passed in and
  returned: the result is the new instance and the table after the call.
\<close>

definition create :: "factory_map \<Rightarrow> string \<Rightarrow> LanguagePlurality \<times> factory_map" where
  "create s language =
     (let s' = (if map_is_empty s then populate s else s);
          creator = (case map_find s' language of
                       None \<Rightarrow> OneSingular_create
                     | Some found \<Rightarrow> found)
      in (call creator, s'))"

text \<open>
  The table after a sequence of calls of \<open>create\<close>, one after the other, each with the
  table its predecessor left. \<open>create\<close> is the only code of the file that touches
  \<open>s_factoryFunctions\<close> (its doc comment, lines 195 to 198: populated the first time
  plurality rules are requested), so these are the states the table has in a run.
\<close>

fun table_after :: "factory_map \<Rightarrow> string list \<Rightarrow> factory_map" where
  "table_after s [] = s"
| "table_after s (language # rest) = table_after (snd (create s language)) rest"

text \<open>
  The eight pairs of lines 215 to 222 written as one list: what the table holds once it
  has been populated (\<open>populate_initial\<close> below proves it).
\<close>

definition built_in_table :: factory_map where
  "built_in_table =
     [(''fr'', ZeroOneSingular_create), (''hu-HU'', NoSingular_create),
      (''tr-TR'', NoSingular_create), (''cs-CZ'', CzechPlurality_create),
      (''pl-PL'', PolishPlurality_create), (''ro'', RomanianPlurality_create),
      (''ru'', CyrillicPlurality_create), (''uk'', CyrillicPlurality_create)]"

section \<open>Auxiliary facts\<close>

subsection \<open>From words to natural numbers\<close>

lemmas word_to_nat = word_unat_eq_iff word_le_nat_alt unat_mod

subsection \<open>Categories and suffixes\<close>

lemma suffix_inj: "suffix a = suffix b \<longleftrightarrow> a = b"
  by (cases a; cases b; simp)

lemma suffix_range:
  "s \<in> {''_one'', ''_few'', ''_many'', ''_other''} \<longleftrightarrow> (\<exists>c. s = suffix c)"
proof
  assume "s \<in> {''_one'', ''_few'', ''_many'', ''_other''}"
  then consider "s = suffix One" | "s = suffix Few" | "s = suffix Many" | "s = suffix Other"
    by auto
  then show "\<exists>c. s = suffix c" by blast
next
  assume "\<exists>c. s = suffix c"
  then obtain c where "s = suffix c" ..
  then show "s \<in> {''_one'', ''_few'', ''_many'', ''_other''}"
    by (cases c) simp_all
qed

lemma getSuffix_range: "getSuffix r n \<in> {''_one'', ''_few'', ''_many'', ''_other''}"
  by (cases r)
    (simp_all add: OneSingular_getSuffix_def ZeroOneSingular_getSuffix_def
      NoSingular_getSuffix_def CyrillicPlurality_getSuffix_def CzechPlurality_getSuffix_def
      PolishPlurality_getSuffix_def RomanianPlurality_getSuffix_def)

subsection \<open>The residues of a count\<close>

text \<open>
  The last digit of a count is below ten, and that alone makes one of the first three
  tests of the Cyrillic and of the Polish rule succeed, whatever the last two digits are.
\<close>

lemma Cyrillic_cover:
  fixes a b :: nat
  assumes "a < 10"
  shows "(if a = 1 \<and> b \<noteq> 11 then ''_one''
      else if (2 \<le> a \<and> a \<le> 4) \<and> \<not> (12 \<le> b \<and> b \<le> 14) then ''_few''
      else if a = 0 \<or> (5 \<le> a \<and> a \<le> 9) \<or> (11 \<le> b \<and> b \<le> 14) then ''_many''
      else ''_other'') \<noteq> ''_other''"
  using assms by (simp, linarith)

lemma Polish_cover:
  fixes a b k :: nat
  assumes "a < 10"
  shows "(if k = 1 then ''_one''
      else if (2 \<le> a \<and> a \<le> 4) \<and> \<not> (12 \<le> b \<and> b \<le> 14) then ''_few''
      else if (0 \<le> a \<and> a \<le> 1) \<or> (5 \<le> a \<and> a \<le> 9) \<or> (12 \<le> b \<and> b \<le> 14)
        then ''_many''
      else ''_other'') \<noteq> ''_other''"
  using assms by (simp, linarith)

lemma Cyrillic_not_other: "CyrillicPlurality_getSuffix n \<noteq> ''_other''"
proof -
  have "CyrillicPlurality_getSuffix n =
     (if unat n mod 10 = 1 \<and> unat n mod 100 \<noteq> 11 then ''_one''
      else if (2 \<le> unat n mod 10 \<and> unat n mod 10 \<le> 4) \<and>
              \<not> (12 \<le> unat n mod 100 \<and> unat n mod 100 \<le> 14) then ''_few''
      else if unat n mod 10 = 0 \<or> (5 \<le> unat n mod 10 \<and> unat n mod 10 \<le> 9) \<or>
              (11 \<le> unat n mod 100 \<and> unat n mod 100 \<le> 14) then ''_many''
      else ''_other'')"
    by (simp add: CyrillicPlurality_getSuffix_def word_to_nat)
  moreover have "unat n mod 10 < 10"
    by simp
  ultimately show ?thesis
    by (simp only: Cyrillic_cover not_False_eq_True)
qed

lemma Polish_not_other: "PolishPlurality_getSuffix n \<noteq> ''_other''"
proof -
  have "PolishPlurality_getSuffix n =
     (if unat n = 1 then ''_one''
      else if (2 \<le> unat n mod 10 \<and> unat n mod 10 \<le> 4) \<and>
              \<not> (12 \<le> unat n mod 100 \<and> unat n mod 100 \<le> 14) then ''_few''
      else if (0 \<le> unat n mod 10 \<and> unat n mod 10 \<le> 1) \<or>
              (5 \<le> unat n mod 10 \<and> unat n mod 10 \<le> 9) \<or>
              (12 \<le> unat n mod 100 \<and> unat n mod 100 \<le> 14) then ''_many''
      else ''_other'')"
    by (auto simp add: PolishPlurality_getSuffix_def word_to_nat)
  moreover have "unat n mod 10 < 10"
    by simp
  ultimately show ?thesis
    by (simp only: Polish_cover not_False_eq_True)
qed

subsection \<open>The table in a sequential run\<close>

lemma populate_initial: "populate s_factoryFunctions_initial = built_in_table"
  by (simp add: populate_def map_insert_def s_factoryFunctions_initial_def built_in_table_def)

lemma initial_empty: "map_is_empty s_factoryFunctions_initial"
  by (simp add: map_is_empty_def s_factoryFunctions_initial_def)

lemma built_in_table_not_empty: "\<not> map_is_empty built_in_table"
  by (simp add: map_is_empty_def built_in_table_def)

lemma create_initial:
  "create s_factoryFunctions_initial language =
     (call (case map_find built_in_table language of
              None \<Rightarrow> OneSingular_create | Some found \<Rightarrow> found),
      built_in_table)"
  using populate_initial initial_empty by (simp add: create_def)

lemma create_built_in:
  "create built_in_table language =
     (call (case map_find built_in_table language of
              None \<Rightarrow> OneSingular_create | Some found \<Rightarrow> found),
      built_in_table)"
  using built_in_table_not_empty by (simp add: create_def)

lemma table_after_built_in: "table_after built_in_table calls = built_in_table"
  by (induction calls) (simp_all add: create_built_in)

lemma table_after_initial:
  "table_after s_factoryFunctions_initial calls =
     (if calls = [] then s_factoryFunctions_initial else built_in_table)"
  by (cases calls) (simp_all add: create_initial table_after_built_in)

lemma create_reachable:
  "fst (create (table_after s_factoryFunctions_initial calls) language) =
     call (case map_find built_in_table language of
             None \<Rightarrow> OneSingular_create | Some found \<Rightarrow> found)"
  by (simp add: table_after_initial create_initial create_built_in)

lemma find_miss:
  "language \<notin> {''fr'', ''hu-HU'', ''tr-TR'', ''cs-CZ'', ''pl-PL'', ''ro'', ''ru'', ''uk''}
     \<Longrightarrow> map_find built_in_table language = None"
  by (simp add: map_find_def built_in_table_def)

section \<open>The rules\<close>

text \<open>
  C6. For every count \<open>n\<close>: \<open>OneSingular\<close> answers \<open>one\<close> when \<open>n\<close> is 1 and \<open>other\<close>
  otherwise; \<open>ZeroOneSingular\<close> answers \<open>one\<close> when \<open>n\<close> is 0 or 1 and \<open>other\<close>
  otherwise; \<open>NoSingular\<close> always answers \<open>other\<close>; \<open>CzechPlurality\<close> answers \<open>one\<close>
  when \<open>n\<close> is 1, \<open>few\<close> when \<open>n\<close> is 2, 3 or 4, and \<open>other\<close> otherwise. The count is
  read as the natural number \<open>unat n\<close>.
\<close>

theorem simple_rules_classify:
  "OneSingular_getSuffix n = (if unat n = 1 then suffix One else suffix Other)
   \<and> ZeroOneSingular_getSuffix n =
       (if unat n = 0 \<or> unat n = 1 then suffix One else suffix Other)
   \<and> NoSingular_getSuffix n = suffix Other
   \<and> CzechPlurality_getSuffix n =
       (if unat n = 1 then suffix One
        else if unat n \<in> {2..4} then suffix Few
        else suffix Other)"
  by (simp add: OneSingular_getSuffix_def ZeroOneSingular_getSuffix_def
      NoSingular_getSuffix_def CzechPlurality_getSuffix_def word_to_nat)

text \<open>
  C3. For every count \<open>n\<close>, \<open>CyrillicPlurality\<close> answers \<open>one\<close> when \<open>n mod 10\<close> is 1
  and \<open>n mod 100\<close> is not 11; otherwise \<open>few\<close> when \<open>n mod 10\<close> is in 2..4 and
  \<open>n mod 100\<close> is not in 12..14; otherwise \<open>many\<close> when \<open>n mod 10\<close> is 0 or in 5..9, or
  \<open>n mod 100\<close> is in 11..14; otherwise \<open>other\<close>, the tests being tried in this order.
  So 21 and 1 are \<open>one\<close>, 2 and 22 are \<open>few\<close>, 5, 11 and 25 are \<open>many\<close>.
\<close>

theorem Cyrillic_classify:
  "CyrillicPlurality_getSuffix n =
     (if unat n mod 10 = 1 \<and> unat n mod 100 \<noteq> 11 then suffix One
      else if unat n mod 10 \<in> {2..4} \<and> unat n mod 100 \<notin> {12..14} then suffix Few
      else if unat n mod 10 = 0 \<or> unat n mod 10 \<in> {5..9} \<or> unat n mod 100 \<in> {11..14}
        then suffix Many
      else suffix Other)
   \<and> CyrillicPlurality_getSuffix 21 = suffix One
   \<and> CyrillicPlurality_getSuffix 1 = suffix One
   \<and> CyrillicPlurality_getSuffix 2 = suffix Few
   \<and> CyrillicPlurality_getSuffix 5 = suffix Many
   \<and> CyrillicPlurality_getSuffix 11 = suffix Many
   \<and> CyrillicPlurality_getSuffix 22 = suffix Few
   \<and> CyrillicPlurality_getSuffix 25 = suffix Many"
  by (simp add: CyrillicPlurality_getSuffix_def word_to_nat)

text \<open>
  C4. For every count \<open>n\<close>, \<open>PolishPlurality\<close> answers \<open>one\<close> when \<open>n\<close> is 1; otherwise
  \<open>few\<close> when \<open>n mod 10\<close> is in 2..4 and \<open>n mod 100\<close> is not in 12..14; otherwise \<open>many\<close>
  when \<open>n mod 10\<close> is in 0..1 or in 5..9, or \<open>n mod 100\<close> is in 12..14; otherwise
  \<open>other\<close>. So 1 is \<open>one\<close>, 2 and 22 are \<open>few\<close>, 5 and 12 are \<open>many\<close>.
\<close>

theorem Polish_classify:
  "PolishPlurality_getSuffix n =
     (if unat n = 1 then suffix One
      else if unat n mod 10 \<in> {2..4} \<and> unat n mod 100 \<notin> {12..14} then suffix Few
      else if unat n mod 10 \<in> {0..1} \<or> unat n mod 10 \<in> {5..9} \<or> unat n mod 100 \<in> {12..14}
        then suffix Many
      else suffix Other)
   \<and> PolishPlurality_getSuffix 1 = suffix One
   \<and> PolishPlurality_getSuffix 2 = suffix Few
   \<and> PolishPlurality_getSuffix 5 = suffix Many
   \<and> PolishPlurality_getSuffix 12 = suffix Many
   \<and> PolishPlurality_getSuffix 22 = suffix Few"
proof -
  have "PolishPlurality_getSuffix n =
     (if unat n = 1 then suffix One
      else if unat n mod 10 \<in> {2..4} \<and> unat n mod 100 \<notin> {12..14} then suffix Few
      else if unat n mod 10 \<in> {0..1} \<or> unat n mod 10 \<in> {5..9} \<or> unat n mod 100 \<in> {12..14}
        then suffix Many
      else suffix Other)"
    by (auto simp add: PolishPlurality_getSuffix_def word_to_nat)
  moreover have "PolishPlurality_getSuffix 1 = suffix One"
    and "PolishPlurality_getSuffix 2 = suffix Few"
    and "PolishPlurality_getSuffix 5 = suffix Many"
    and "PolishPlurality_getSuffix 12 = suffix Many"
    and "PolishPlurality_getSuffix 22 = suffix Few"
    by (simp_all add: PolishPlurality_getSuffix_def word_to_nat)
  ultimately show ?thesis
    by (simp only: simp_thms)
qed

text \<open>
  C5. For every count \<open>n\<close>, \<open>RomanianPlurality\<close> answers \<open>one\<close> when \<open>n\<close> is 1;
  otherwise \<open>few\<close> when \<open>n\<close> is 0 or \<open>n mod 100\<close> is in 1..19; otherwise \<open>other\<close>. So 0,
  12 and 101 are \<open>few\<close>, 1 is \<open>one\<close> and 20 is \<open>other\<close>.
\<close>

theorem Romanian_classify:
  "RomanianPlurality_getSuffix n =
     (if unat n = 1 then suffix One
      else if unat n = 0 \<or> unat n mod 100 \<in> {1..19} then suffix Few
      else suffix Other)
   \<and> RomanianPlurality_getSuffix 0 = suffix Few
   \<and> RomanianPlurality_getSuffix 1 = suffix One
   \<and> RomanianPlurality_getSuffix 12 = suffix Few
   \<and> RomanianPlurality_getSuffix 20 = suffix Other
   \<and> RomanianPlurality_getSuffix 101 = suffix Few"
  by (simp add: RomanianPlurality_getSuffix_def word_to_nat)

text \<open>
  C7. Totality: for each of the seven rules and every count, \<open>getSuffix\<close> returns one
  of the four strings \<open>"_one"\<close>, \<open>"_few"\<close>, \<open>"_many"\<close>, \<open>"_other"\<close>, and that string is
  the suffix of exactly one category. The same holds of every natural number \<open>k\<close>
  passed as the \<open>unsigned\<close> argument, so of every \<open>k\<close> from 0 to 200.
\<close>

theorem getSuffix_total:
  "getSuffix r n \<in> {''_one'', ''_few'', ''_many'', ''_other''}
   \<and> (\<exists>!c. getSuffix r n = suffix c)
   \<and> getSuffix r (word_of_nat k) \<in> {''_one'', ''_few'', ''_many'', ''_other''}
   \<and> (\<exists>!c. getSuffix r (word_of_nat k) = suffix c)"
proof -
  have one: "\<exists>!c. getSuffix r m = suffix c" for m
  proof -
    from getSuffix_range [of r m] obtain c where "getSuffix r m = suffix c"
      unfolding suffix_range by blast
    then show ?thesis
      by (auto simp: suffix_inj)
  qed
  show ?thesis
    using getSuffix_range [of r n] getSuffix_range [of r "word_of_nat k"]
      one [of n] one [of "word_of_nat k"]
    by (simp only: simp_thms)
qed

text \<open>
  C9. The last branch of \<open>CyrillicPlurality::getSuffix\<close> and of
  \<open>PolishPlurality::getSuffix\<close> is never reached: for every count both return
  \<open>one\<close>, \<open>few\<close> or \<open>many\<close>, never \<open>other\<close>.
\<close>

theorem Cyrillic_Polish_other_unreachable:
  "CyrillicPlurality_getSuffix n \<in> {suffix One, suffix Few, suffix Many}
   \<and> CyrillicPlurality_getSuffix n \<noteq> suffix Other
   \<and> PolishPlurality_getSuffix n \<in> {suffix One, suffix Few, suffix Many}
   \<and> PolishPlurality_getSuffix n \<noteq> suffix Other"
proof -
  have "getSuffix CyrillicPlurality n \<in> {''_one'', ''_few'', ''_many'', ''_other''}"
    and "getSuffix PolishPlurality n \<in> {''_one'', ''_few'', ''_many'', ''_other''}"
    by (rule getSuffix_range)+
  with Cyrillic_not_other [of n] Polish_not_other [of n] show ?thesis
    by auto
qed

section \<open>The factory\<close>

text \<open>
  C1. In every state the table can have in a sequential run (after any sequence
  \<open>calls\<close> of earlier calls, none included), \<open>create\<close> on a language that is none of
  the eight keys of the table, the empty string included, returns an instance of
  \<open>OneSingular\<close>: its \<open>getSuffix\<close> answers \<open>one\<close> for 1 and \<open>other\<close> for every other
  count. \<open>create\<close> has no failing branch and no null result.
\<close>

theorem create_fallback:
  assumes "language \<notin> {''fr'', ''hu-HU'', ''tr-TR'', ''cs-CZ'', ''pl-PL'', ''ro'', ''ru'', ''uk''}"
  shows "fst (create (table_after s_factoryFunctions_initial calls) language) = OneSingular
    \<and> getSuffix (fst (create (table_after s_factoryFunctions_initial calls) language)) n =
         (if unat n = 1 then suffix One else suffix Other)"
  using find_miss [OF assms]
  by (simp add: create_reachable OneSingular_getSuffix_def word_to_nat)

theorem create_fallback_witness:
  "'''' \<notin> {''fr'', ''hu-HU'', ''tr-TR'', ''cs-CZ'', ''pl-PL'', ''ro'', ''ru'', ''uk''}
   \<and> fst (create (table_after s_factoryFunctions_initial [''ru'']) '''') = OneSingular
   \<and> getSuffix (fst (create (table_after s_factoryFunctions_initial [''ru'']) '''')) 1
       = ''_one''
   \<and> getSuffix (fst (create (table_after s_factoryFunctions_initial [''ru'']) '''')) 21
       = ''_other''"
proof -
  let ?r = "fst (create (table_after s_factoryFunctions_initial [''ru'']) '''')"
  have h: "'''' \<notin> {''fr'', ''hu-HU'', ''tr-TR'', ''cs-CZ'', ''pl-PL'', ''ro'', ''ru'', ''uk''}"
    by simp
  have r: "?r = OneSingular"
    by (rule conjunct1 [OF create_fallback [OF h]])
  have "getSuffix ?r 1 = (if unat (1 :: unsigned) = 1 then suffix One else suffix Other)"
    by (rule conjunct2 [OF create_fallback [OF h]])
  also have "\<dots> = ''_one''"
    by simp
  finally have one: "getSuffix ?r 1 = ''_one''" .
  have "getSuffix ?r 21 = (if unat (21 :: unsigned) = 1 then suffix One else suffix Other)"
    by (rule conjunct2 [OF create_fallback [OF h]])
  also have "\<dots> = ''_other''"
    by simp
  finally have other: "getSuffix ?r 21 = ''_other''" .
  from h r one other show ?thesis
    by (intro conjI)
qed

text \<open>
  C2. In every state the table can have in a sequential run, \<open>create\<close> maps \<open>"fr"\<close> to
  \<open>ZeroOneSingular\<close>, \<open>"hu-HU"\<close> and \<open>"tr-TR"\<close> to \<open>NoSingular\<close>, \<open>"cs-CZ"\<close> to
  \<open>CzechPlurality\<close>, \<open>"pl-PL"\<close> to \<open>PolishPlurality\<close>, \<open>"ro"\<close> to \<open>RomanianPlurality\<close>,
  \<open>"ru"\<close> and \<open>"uk"\<close> to \<open>CyrillicPlurality\<close>. The match is exact: \<open>"FR"\<close>, \<open>"Ru"\<close> and
  \<open>"hu-hu"\<close> get \<open>OneSingular\<close>. The rule for \<open>"ru"\<close> answers \<open>one\<close> for 21, the rule
  for \<open>"xx-unknown"\<close> answers \<open>other\<close> for 21.
\<close>

theorem create_built_in_languages:
  "fst (create (table_after s_factoryFunctions_initial calls) ''fr'') = ZeroOneSingular
   \<and> fst (create (table_after s_factoryFunctions_initial calls) ''hu-HU'') = NoSingular
   \<and> fst (create (table_after s_factoryFunctions_initial calls) ''tr-TR'') = NoSingular
   \<and> fst (create (table_after s_factoryFunctions_initial calls) ''cs-CZ'') = CzechPlurality
   \<and> fst (create (table_after s_factoryFunctions_initial calls) ''pl-PL'') = PolishPlurality
   \<and> fst (create (table_after s_factoryFunctions_initial calls) ''ro'') = RomanianPlurality
   \<and> fst (create (table_after s_factoryFunctions_initial calls) ''ru'') = CyrillicPlurality
   \<and> fst (create (table_after s_factoryFunctions_initial calls) ''uk'') = CyrillicPlurality
   \<and> fst (create (table_after s_factoryFunctions_initial calls) ''FR'') = OneSingular
   \<and> fst (create (table_after s_factoryFunctions_initial calls) ''Ru'') = OneSingular
   \<and> fst (create (table_after s_factoryFunctions_initial calls) ''hu-hu'') = OneSingular
   \<and> getSuffix (fst (create (table_after s_factoryFunctions_initial calls) ''ru'')) 21
       = suffix One
   \<and> getSuffix (fst (create (table_after s_factoryFunctions_initial calls) ''xx-unknown'')) 21
       = suffix Other"
  by (simp add: create_reachable map_find_def built_in_table_def
      CyrillicPlurality_getSuffix_def OneSingular_getSuffix_def)

text \<open>
  C8. The table is empty before the first call of \<open>create\<close>, which populates it: after
  the first call, and after any number of further calls, it is the list of the eight
  built-in pairs. It is then not empty, so a later call does not run the insertions
  again; a later call returns the table as it found it, and returns for a language the
  instance that looking the language up in that table gives, which is the instance
  the first call would have returned for it.
\<close>

theorem table_built_once:
  "map_is_empty s_factoryFunctions_initial
   \<and> snd (create s_factoryFunctions_initial first) = built_in_table
   \<and> map fst built_in_table =
       [''fr'', ''hu-HU'', ''tr-TR'', ''cs-CZ'', ''pl-PL'', ''ro'', ''ru'', ''uk'']
   \<and> table_after s_factoryFunctions_initial (first # rest) = built_in_table
   \<and> \<not> map_is_empty (table_after s_factoryFunctions_initial (first # rest))
   \<and> snd (create (table_after s_factoryFunctions_initial (first # rest)) language)
       = table_after s_factoryFunctions_initial (first # rest)
   \<and> fst (create (table_after s_factoryFunctions_initial (first # rest)) language)
       = call (case map_find (table_after s_factoryFunctions_initial (first # rest)) language of
                 None \<Rightarrow> OneSingular_create | Some found \<Rightarrow> found)
   \<and> fst (create (table_after s_factoryFunctions_initial (first # rest)) language)
       = fst (create s_factoryFunctions_initial language)"
proof -
  have t: "table_after s_factoryFunctions_initial (first # rest) = built_in_table"
    by (simp add: create_initial table_after_built_in)
  have "map fst built_in_table =
       [''fr'', ''hu-HU'', ''tr-TR'', ''cs-CZ'', ''pl-PL'', ''ro'', ''ru'', ''uk'']"
    by (simp add: built_in_table_def)
  then show ?thesis
    unfolding t
    using initial_empty built_in_table_not_empty
    by (simp add: create_initial create_built_in)
qed

end
